theory Spec2Isabelle
  imports Complex_Main "HOL-Library.AList" "HOL-Library.FSet"
begin

section \<open>Data model of \<open>src/server/mockserver.ts\<close>\<close>

text \<open>
  The server keeps four process-wide \<open>Map\<close>s and answers five Socket.IO requests.
  A JavaScript \<open>Map\<close> keeps its keys in insertion order and \<open>set\<close> on an existing key
  replaces the value in place, which is what \<open>AList.update\<close> does on an association list;
  \<open>get\<close> is \<open>map_of\<close>. A \<open>Set<string>\<close> is only asked for \<open>size\<close>, \<open>has\<close> and \<open>add\<close>,
  so it is a finite set. No two keys of \<open>roomMembers\<close> or \<open>messagesByRoom\<close> ever share one
  object (each is created by its own \<open>new Set()\<close> or \<open>[]\<close>), so the in-place \<open>add\<close> and
  \<open>push\<close> are modelled by value.

  A JavaScript \<open>number\<close> that arrives in a Socket.IO payload is a finite double (JSON has
  neither NaN nor an infinity); \<open>Math.max\<close>, \<open>Math.min\<close> and \<open>>=\<close> are exact on these, so a
  number is modelled as a rational. Strings are lists of 8-bit characters (code units
  below 256).
\<close>

type_synonym number = rat

datatype Gender = Male | Female | Other

record User =
  user_id :: string
  user_name :: string
  user_email :: string
  user_dob :: string
  user_gender :: Gender
  user_createdAt :: number

record Room =
  room_id :: string
  room_name :: string
  room_startDate :: string
  room_maxUsers :: number
  room_createdAt :: number
  room_createdByUserId :: string

record Message =
  msg_id :: string
  msg_roomId :: string
  msg_senderUserId :: string
  msg_senderName :: string
  msg_text :: string
  msg_createdAt :: number

text \<open>The payloads. A field marked \<open>?\<close> in the source, and \<open>startDate\<close>, which the
  handler reads through \<open>||\<close>, may be missing.\<close>

record ListRoomsPayload =
  lr_apiKey :: string

record CreateUserPayload =
  cu_apiKey :: string
  cu_name :: string
  cu_email :: string
  cu_dob :: string
  cu_gender :: "Gender option"
  cu_agreedToTerms :: bool

record CreateRoomPayload =
  cr_apiKey :: string
  cr_userId :: string
  cr_roomName :: string
  cr_startDate :: "string option"
  cr_maxUsers :: "number option"

record JoinRoomPayload =
  jr_apiKey :: string
  jr_userId :: string
  jr_roomId :: string

record SendMessagePayload =
  sm_apiKey :: string
  sm_userId :: string
  sm_roomId :: string
  sm_text :: string

text \<open>The four stores.\<close>

record state =
  users :: "(string \<times> User) list"
  rooms :: "(string \<times> Room) list"
  roomMembers :: "(string \<times> string fset) list"
  messagesByRoom :: "(string \<times> Message list) list"

text \<open>
  What a handler reads from outside the stores: the configured key list, the clock and
  the \<open>Date\<close> built-in. A \<open>Date\<close> is seen through its local calendar getters only;
  \<open>parseDate s\<close> stands for \<open>new Date(s)\<close> and is \<open>None\<close> when \<open>getTime()\<close> is NaN,
  \<open>today\<close> for \<open>new Date()\<close>, \<open>todayIso\<close> for \<open>new Date().toISOString().slice(0, 10)\<close>,
  \<open>toISOString s\<close> for \<open>new Date(s).toISOString()\<close> and \<open>nowMs\<close> for \<open>Date.now()\<close>.
  The identifier drawn by \<open>nanoid\<close> is an argument of the handler that draws one.
\<close>

record Date =
  getFullYear :: int
  getMonth :: int
  getDate :: int

record env =
  API_KEYS :: "string list"
  parseDate :: "string \<Rightarrow> Date option"
  today :: Date
  todayIso :: string
  toISOString :: "string \<Rightarrow> string"
  nowMs :: number

datatype 'a result = err string string | ok 'a

fun is_err :: "'a result \<Rightarrow> bool" where
  "is_err (err c m) = True"
| "is_err (ok d) = False"

fun err_code :: "'a result \<Rightarrow> string option" where
  "err_code (err c m) = Some c"
| "err_code (ok d) = None"

section \<open>Strings and the two regular expressions\<close>

text \<open>The characters matched by \<open>\s\<close> and removed by \<open>trim()\<close> are the same set; below
  256 they are TAB, LF, VT, FF, CR, SPACE and NBSP.\<close>

definition isWhiteSpace :: "char \<Rightarrow> bool" where
  "isWhiteSpace c = (of_char c \<in> {9, 10, 11, 12, 13, 32, 160 :: nat})"

definition isLetter :: "char \<Rightarrow> bool" where
  "isLetter c = ((65 \<le> (of_char c :: nat) \<and> (of_char c :: nat) \<le> 90)
     \<or> (97 \<le> (of_char c :: nat) \<and> (of_char c :: nat) \<le> 122))"

definition trim :: "string \<Rightarrow> string" where
  "trim s = rev (dropWhile isWhiteSpace (rev (dropWhile isWhiteSpace s)))"

text \<open>Below 256 the capital letters are \<open>A\<close> to \<open>Z\<close> and the Latin-1 capitals 192 to
  222 without the multiplication sign 215; each is 32 below its small letter.\<close>

definition isUpper :: "char \<Rightarrow> bool" where
  "isUpper c = ((65 \<le> (of_char c :: nat) \<and> (of_char c :: nat) \<le> 90)
     \<or> (192 \<le> (of_char c :: nat) \<and> (of_char c :: nat) \<le> 222 \<and> (of_char c :: nat) \<noteq> 215))"

definition toLowerCase :: "string \<Rightarrow> string" where
  "toLowerCase s = map (\<lambda>c. if isUpper c then char_of ((of_char c :: nat) + 32) else c) s"

text \<open>\<open>/^[A-Za-z\s]+$/\<close>: one or more characters, each a letter or white space.\<close>

definition nameRegex :: "string \<Rightarrow> bool" where
  "nameRegex s = (s \<noteq> [] \<and> list_all (\<lambda>c. isLetter c \<or> isWhiteSpace c) s)"

text \<open>\<open>/^[^\s@]+@[^\s@]+\.[^\s@]+$/\<close>: none of the three parts holds an \<open>@\<close>, so the
  \<open>@\<close> of a match is the first one of the string; what follows it has no white space
  and no \<open>@\<close>, and a dot that is neither its first nor its last character.\<close>

definition notSpaceAt :: "char \<Rightarrow> bool" where
  "notSpaceAt c = (\<not> isWhiteSpace c \<and> c \<noteq> CHR ''@'')"

definition emailRegex :: "string \<Rightarrow> bool" where
  "emailRegex s =
     (let local = takeWhile (\<lambda>c. c \<noteq> CHR ''@'') s;
          rest = dropWhile (\<lambda>c. c \<noteq> CHR ''@'') s
      in local \<noteq> [] \<and> list_all notSpaceAt local \<and> rest \<noteq> []
         \<and> list_all notSpaceAt (tl rest)
         \<and> CHR ''.'' \<in> set (butlast (tl (tl rest))))"

section \<open>Validation helpers\<close>

definition isValidApiKey :: "env \<Rightarrow> string \<Rightarrow> bool" where
  "isValidApiKey e apiKey = (apiKey \<in> set (API_KEYS e))"

definition isAtLeast18 :: "env \<Rightarrow> string \<Rightarrow> bool" where
  "isAtLeast18 e dob =
     (case parseDate e dob of
        None \<Rightarrow> False
      | Some d \<Rightarrow>
          (let now = today e;
               years = getFullYear now - getFullYear d;
               m = getMonth now - getMonth d
           in if years > 18 then True
              else if years < 18 then False
              else if m > 0 then True
              else if m < 0 then False
              else getDate now \<ge> getDate d))"

text \<open>Both dates are cut to local midnight by \<open>setHours(0, 0, 0, 0)\<close> and their
  instants compared: the comparison of the two calendar days.\<close>

definition dayNotBefore :: "Date \<Rightarrow> Date \<Rightarrow> bool" where
  "dayNotBefore d t =
     (getFullYear d > getFullYear t
      \<or> (getFullYear d = getFullYear t
          \<and> (getMonth d > getMonth t \<or> (getMonth d = getMonth t \<and> getDate d \<ge> getDate t))))"

definition isStartDateNotPast :: "env \<Rightarrow> string \<Rightarrow> bool" where
  "isStartDateNotPast e dateStr =
     (case parseDate e dateStr of
        None \<Rightarrow> False
      | Some d \<Rightarrow> dayNotBefore d (today e))"

section \<open>The stores at start-up\<close>

definition seedRooms :: "env \<Rightarrow> state" where
  "seedRooms e =
     (let now = nowMs e;
          r1 = \<lparr>room_id = ''room_001'', room_name = ''Support Room'',
                room_startDate = todayIso e, room_maxUsers = 10,
                room_createdAt = now, room_createdByUserId = ''system''\<rparr>;
          r2 = \<lparr>room_id = ''room_002'', room_name = ''Sales Room'',
                room_startDate = todayIso e, room_maxUsers = 5,
                room_createdAt = now, room_createdByUserId = ''system''\<rparr>
      in \<lparr>users = [],
          rooms = AList.update (room_id r2) r2 (AList.update (room_id r1) r1 []),
          roomMembers = AList.update (room_id r2) {||} (AList.update (room_id r1) {||} []),
          messagesByRoom = AList.update (room_id r2) [] (AList.update (room_id r1) [] [])\<rparr>)"

section \<open>The request handlers\<close>

text \<open>
  Each handler returns what it passes to \<open>ack\<close> and the stores as it leaves them. The
  \<open>catch\<close> branch (\<open>INTERNAL\<close>) is not reached on a payload of the declared type: the only
  call that can throw, \<open>toISOString()\<close> on an invalid date, runs after the date was
  checked. Joining and emitting on the socket are transport effects outside the stores.
  \<open>slice(-50)\<close> keeps the elements from index \<open>max(length - 50, 0)\<close> on, and
  \<open>sdk:room:create\<close> stores a new empty \<open>Set\<close> and adds the creator to it at once.
\<close>

text \<open>\<open>roomMembers.get(id) ?? new Set()\<close> and \<open>messagesByRoom.get(id) ?? []\<close>.\<close>

definition membersOf :: "state \<Rightarrow> string \<Rightarrow> string fset" where
  "membersOf s rid = (case map_of (roomMembers s) rid of None \<Rightarrow> {||} | Some ms \<Rightarrow> ms)"

definition logOf :: "state \<Rightarrow> string \<Rightarrow> Message list" where
  "logOf s rid = (case map_of (messagesByRoom s) rid of None \<Rightarrow> [] | Some l \<Rightarrow> l)"

record RoomInfo =
  ri_id :: string
  ri_name :: string
  ri_startDate :: string
  ri_maxUsers :: number
  ri_members :: nat

text \<open>\<open>sdk:room:list\<close> reads \<open>payload?.apiKey\<close>: with no payload that is \<open>undefined\<close>,
  which a list of strings does not include.\<close>

definition sdk_room_list :: "env \<Rightarrow> ListRoomsPayload option \<Rightarrow> state \<Rightarrow> RoomInfo list result" where
  "sdk_room_list e payload s =
     (if \<not> (case payload of None \<Rightarrow> False | Some p \<Rightarrow> isValidApiKey e (lr_apiKey p))
      then err ''UNAUTHORIZED'' ''Invalid apiKey''
      else ok (map (\<lambda>r. \<lparr>ri_id = room_id r, ri_name = room_name r,
                          ri_startDate = room_startDate r, ri_maxUsers = room_maxUsers r,
                          ri_members = (case map_of (roomMembers s) (room_id r) of
                                          None \<Rightarrow> 0 | Some ms \<Rightarrow> fcard ms)\<rparr>)
                   (map snd (rooms s))))"

definition sdk_user_create ::
  "env \<Rightarrow> string \<Rightarrow> CreateUserPayload option \<Rightarrow> state \<Rightarrow> User result \<times> state" where
  "sdk_user_create e nanoid payload s =
     (case payload of
        None \<Rightarrow> (err ''BAD_REQUEST'' ''Payload required'', s)
      | Some p \<Rightarrow>
          if \<not> isValidApiKey e (cu_apiKey p) then (err ''UNAUTHORIZED'' ''Invalid apiKey'', s)
          else if \<not> cu_agreedToTerms p then (err ''TERMS_REQUIRED'' ''Must agree to terms'', s)
          else if cu_name p = [] \<or> length (cu_name p) > 30
            then (err ''INVALID_NAME'' ''Invalid name'', s)
          else if \<not> nameRegex (cu_name p)
            then (err ''INVALID_NAME'' ''Name must be letters only'', s)
          else if cu_email p = [] \<or> \<not> emailRegex (cu_email p)
            then (err ''INVALID_EMAIL'' ''Invalid email'', s)
          else if cu_dob p = [] \<or> \<not> isAtLeast18 e (cu_dob p)
            then (err ''INVALID_DOB'' ''Must be at least 18'', s)
          else
            (let gender = (case cu_gender p of None \<Rightarrow> Male | Some g \<Rightarrow> g);
                 id = ''u_'' @ nanoid;
                 user = \<lparr>user_id = id, user_name = trim (cu_name p),
                         user_email = toLowerCase (trim (cu_email p)),
                         user_dob = toISOString e (cu_dob p),
                         user_gender = gender, user_createdAt = nowMs e\<rparr>
             in (ok user, s\<lparr>users := AList.update id user (users s)\<rparr>)))"

definition sdk_room_create ::
  "env \<Rightarrow> string \<Rightarrow> CreateRoomPayload option \<Rightarrow> state \<Rightarrow> Room result \<times> state" where
  "sdk_room_create e nanoid payload s =
     (case payload of
        None \<Rightarrow> (err ''BAD_REQUEST'' ''Payload required'', s)
      | Some p \<Rightarrow>
          if \<not> isValidApiKey e (cr_apiKey p) then (err ''UNAUTHORIZED'' ''Invalid apiKey'', s)
          else if map_of (users s) (cr_userId p) = None
            then (err ''USER_NOT_FOUND'' ''User not found'', s)
          else
            (let roomName = trim (cr_roomName p)
             in if roomName = [] then (err ''INVALID_ROOM_NAME'' ''Room name required'', s)
                else if length roomName > 50 then (err ''INVALID_ROOM_NAME'' ''Max 50 chars'', s)
                else
                  (let startDate = (case cr_startDate p of
                                      None \<Rightarrow> todayIso e
                                    | Some d \<Rightarrow> if d = [] then todayIso e else d)
                   in if \<not> isStartDateNotPast e startDate
                      then (err ''INVALID_START_DATE'' ''Start date cannot be in the past'', s)
                      else
                        (let maxUsers = max 2 (min 10 (case cr_maxUsers p of
                                                         None \<Rightarrow> 2 | Some n \<Rightarrow> n));
                             id = ''room_'' @ nanoid;
                             room = \<lparr>room_id = id, room_name = roomName,
                                     room_startDate = take 10 (toISOString e startDate),
                                     room_maxUsers = maxUsers, room_createdAt = nowMs e,
                                     room_createdByUserId = cr_userId p\<rparr>
                         in (ok room,
                             s\<lparr>rooms := AList.update id room (rooms s),
                               roomMembers :=
                                 AList.update id (finsert (cr_userId p) {||}) (roomMembers s),
                               messagesByRoom := AList.update id [] (messagesByRoom s)\<rparr>)))))"

definition sdk_room_join ::
  "env \<Rightarrow> JoinRoomPayload option \<Rightarrow> state \<Rightarrow> (Room \<times> Message list) result \<times> state" where
  "sdk_room_join e payload s =
     (case payload of
        None \<Rightarrow> (err ''BAD_REQUEST'' ''Payload required'', s)
      | Some p \<Rightarrow>
          if \<not> isValidApiKey e (jr_apiKey p) then (err ''UNAUTHORIZED'' ''Invalid apiKey'', s)
          else if map_of (users s) (jr_userId p) = None
            then (err ''USER_NOT_FOUND'' ''User not found'', s)
          else
            (case map_of (rooms s) (jr_roomId p) of
               None \<Rightarrow> (err ''ROOM_NOT_FOUND'' ''Room not found'', s)
             | Some room \<Rightarrow>
                 (let members = membersOf s (room_id room)
                  in if of_nat (fcard members) \<ge> room_maxUsers room
                        \<and> \<not> jr_userId p |\<in>| members
                     then (err ''ROOM_FULL'' ''Room is full'', s)
                     else
                       (let members' = finsert (jr_userId p) members;
                            s' = s\<lparr>roomMembers :=
                                     AList.update (room_id room) members' (roomMembers s)\<rparr>;
                            log = logOf s' (room_id room);
                            recentMessages = drop (length log - 50) log
                        in (ok (room, recentMessages), s')))))"

definition sdk_message_send ::
  "env \<Rightarrow> string \<Rightarrow> SendMessagePayload option \<Rightarrow> state \<Rightarrow> Message result \<times> state" where
  "sdk_message_send e nanoid payload s =
     (case payload of
        None \<Rightarrow> (err ''BAD_REQUEST'' ''Payload required'', s)
      | Some p \<Rightarrow>
          if \<not> isValidApiKey e (sm_apiKey p) then (err ''UNAUTHORIZED'' ''Invalid apiKey'', s)
          else
            (case map_of (users s) (sm_userId p) of
               None \<Rightarrow> (err ''USER_NOT_FOUND'' ''User not found'', s)
             | Some user \<Rightarrow>
                 (case map_of (rooms s) (sm_roomId p) of
                    None \<Rightarrow> (err ''ROOM_NOT_FOUND'' ''Room not found'', s)
                  | Some room \<Rightarrow>
                      if \<not> (case map_of (roomMembers s) (room_id room) of
                               None \<Rightarrow> False | Some ms \<Rightarrow> user_id user |\<in>| ms)
                      then (err ''FORBIDDEN'' ''User is not in the room'', s)
                      else
                        (let text = trim (sm_text p)
                         in if text = []
                            then (err ''EMPTY_MESSAGE'' ''Message cannot be empty'', s)
                            else if length text > 2000
                            then (err ''MESSAGE_TOO_LONG'' ''Max 2000 chars'', s)
                            else
                              (let msg = \<lparr>msg_id = ''m_'' @ nanoid, msg_roomId = room_id room,
                                          msg_senderUserId = user_id user,
                                          msg_senderName = user_name user,
                                          msg_text = text, msg_createdAt = nowMs e\<rparr>;
                                   list = logOf s (room_id room)
                               in (ok msg,
                                   s\<lparr>messagesByRoom :=
                                       AList.update (room_id room) (list @ [msg])
                                         (messagesByRoom s)\<rparr>))))))"

section \<open>A concrete environment and concrete requests\<close>

text \<open>The clock reads 3 November 2026 (\<open>getMonth\<close> counts from 0) and the key list is
  the default \<open>demo-key\<close>.\<close>

definition demoEnv :: env where
  "demoEnv =
     \<lparr>API_KEYS = [''demo-key''],
      parseDate = map_of
        [(''2000-01-01'', \<lparr>getFullYear = 2000, getMonth = 0, getDate = 1\<rparr>),
         (''2008-11-03'', \<lparr>getFullYear = 2008, getMonth = 10, getDate = 3\<rparr>),
         (''2008-11-04'', \<lparr>getFullYear = 2008, getMonth = 10, getDate = 4\<rparr>),
         (''2026-11-03'', \<lparr>getFullYear = 2026, getMonth = 10, getDate = 3\<rparr>)],
      today = \<lparr>getFullYear = 2026, getMonth = 10, getDate = 3\<rparr>,
      todayIso = ''2026-11-03'',
      toISOString = (\<lambda>s. s @ ''T00:00:00.000Z''),
      nowMs = 1793664000000\<rparr>"

definition newUser :: "string \<Rightarrow> string \<Rightarrow> CreateUserPayload" where
  "newUser name dob =
     \<lparr>cu_apiKey = ''demo-key'', cu_name = name, cu_email = ''a@b.co'', cu_dob = dob,
      cu_gender = None, cu_agreedToTerms = True\<rparr>"

definition newRoom :: "string \<Rightarrow> string \<Rightarrow> number option \<Rightarrow> CreateRoomPayload" where
  "newRoom uid name n =
     \<lparr>cr_apiKey = ''demo-key'', cr_userId = uid, cr_roomName = name, cr_startDate = None,
      cr_maxUsers = n\<rparr>"

definition joinReq :: "string \<Rightarrow> string \<Rightarrow> JoinRoomPayload" where
  "joinReq uid rid = \<lparr>jr_apiKey = ''demo-key'', jr_userId = uid, jr_roomId = rid\<rparr>"

definition sendReq :: "string \<Rightarrow> string \<Rightarrow> string \<Rightarrow> SendMessagePayload" where
  "sendReq uid rid txt =
     \<lparr>sm_apiKey = ''demo-key'', sm_userId = uid, sm_roomId = rid, sm_text = txt\<rparr>"

text \<open>Three users, and Ann's room of capacity 2 with Ann and Bob in it.\<close>

definition threeUsers :: state where
  "threeUsers =
     snd (sdk_user_create demoEnv ''c'' (Some (newUser ''Cy'' ''2000-01-01''))
       (snd (sdk_user_create demoEnv ''b'' (Some (newUser ''Bob'' ''2000-01-01''))
         (snd (sdk_user_create demoEnv ''a'' (Some (newUser ''Ann'' ''2000-01-01''))
           (seedRooms demoEnv))))))"

definition fullRoom :: state where
  "fullRoom =
     snd (sdk_room_join demoEnv (Some (joinReq ''u_b'' ''room_r''))
       (snd (sdk_room_create demoEnv ''r'' (Some (newRoom ''u_a'' ''Test Room'' (Some 2)))
         threeUsers)))"

definition testRoom :: Room where
  "testRoom =
     \<lparr>room_id = ''room_r'', room_name = ''Test Room'', room_startDate = ''2026-11-03'',
      room_maxUsers = 2, room_createdAt = 1793664000000, room_createdByUserId = ''u_a''\<rparr>"

section \<open>Calendar notions used to state the age boundary\<close>

text \<open>These are not functions of the server: they say what ``exactly 18 years before
  today'' and ``the 18th birthday is tomorrow'' mean on calendar fields, with
  \<open>getMonth\<close> counted from 0 as JavaScript does.\<close>

definition isLeapYear :: "int \<Rightarrow> bool" where
  "isLeapYear y = (y mod 4 = 0 \<and> (y mod 100 \<noteq> 0 \<or> y mod 400 = 0))"

definition daysInMonth :: "int \<Rightarrow> int \<Rightarrow> int" where
  "daysInMonth y m =
     (if m = 1 then (if isLeapYear y then 29 else 28)
      else if m = 3 \<or> m = 5 \<or> m = 8 \<or> m = 10 then 30
      else 31)"

definition nextDay :: "Date \<Rightarrow> Date" where
  "nextDay t =
     (if getDate t < daysInMonth (getFullYear t) (getMonth t)
      then t\<lparr>getDate := getDate t + 1\<rparr>
      else if getMonth t < 11
      then t\<lparr>getMonth := getMonth t + 1, getDate := 1\<rparr>
      else \<lparr>getFullYear = getFullYear t + 1, getMonth = 0, getDate = 1\<rparr>)"

definition yearsBefore :: "int \<Rightarrow> Date \<Rightarrow> Date" where
  "yearsBefore n t = t\<lparr>getFullYear := getFullYear t - n\<rparr>"

section \<open>Sequences of requests\<close>

text \<open>Requests are handled one at a time, each with the clock and the identifier it
  draws; \<open>sendAll\<close> is a run of \<open>sdk:message:send\<close> requests and collects the answers
  in the order of the requests.\<close>

fun sendAll ::
  "(env \<times> string \<times> SendMessagePayload) list \<Rightarrow> state \<Rightarrow> Message result list \<times> state" where
  "sendAll [] s = ([], s)"
| "sendAll ((e, nanoid, p) # reqs) s =
     (let (r, s') = sdk_message_send e nanoid (Some p) s;
          (rs, s'') = sendAll reqs s'
      in (r # rs, s''))"

datatype request =
    ListRooms env "ListRoomsPayload option"
  | CreateUser env string "CreateUserPayload option"
  | CreateRoom env string "CreateRoomPayload option"
  | JoinRoom env "JoinRoomPayload option"
  | SendMessage env string "SendMessagePayload option"

fun handle :: "request \<Rightarrow> state \<Rightarrow> state" where
  "handle (ListRooms e p) s = s"
| "handle (CreateUser e nanoid p) s = snd (sdk_user_create e nanoid p s)"
| "handle (CreateRoom e nanoid p) s = snd (sdk_room_create e nanoid p s)"
| "handle (JoinRoom e p) s = snd (sdk_room_join e p s)"
| "handle (SendMessage e nanoid p) s = snd (sdk_message_send e nanoid p s)"

definition run :: "request list \<Rightarrow> state \<Rightarrow> state" where
  "run reqs s = foldl (\<lambda>s r. handle r s) s reqs"

text \<open>The capacity invariant: every stored room has at most \<open>maxUsers\<close> members.\<close>

definition capacityOk :: "state \<Rightarrow> bool" where
  "capacityOk s =
     list_all (\<lambda>r. of_nat (fcard (membersOf s (room_id r))) \<le> room_maxUsers r)
       (map snd (rooms s))"

text \<open>Concrete runs: Ann says \<open>hi\<close> 51 times in the test room, and Ann and Bob say one
  line each.\<close>

definition hiMsg :: Message where
  "hiMsg =
     \<lparr>msg_id = ''m_k'', msg_roomId = ''room_r'', msg_senderUserId = ''u_a'',
      msg_senderName = ''Ann'', msg_text = ''hi'', msg_createdAt = 1793664000000\<rparr>"

definition yoMsg :: Message where
  "yoMsg =
     \<lparr>msg_id = ''m_l'', msg_roomId = ''room_r'', msg_senderUserId = ''u_b'',
      msg_senderName = ''Bob'', msg_text = ''yo'', msg_createdAt = 1793664000000\<rparr>"

definition chatty :: state where
  "chatty = snd (sendAll (replicate 51 (demoEnv, ''k'', sendReq ''u_a'' ''room_r'' '' hi '')) fullRoom)"

definition twoSends :: "(env \<times> string \<times> SendMessagePayload) list" where
  "twoSends = [(demoEnv, ''k'', sendReq ''u_a'' ''room_r'' '' hi ''),
               (demoEnv, ''l'', sendReq ''u_b'' ''room_r'' ''yo'')]"

text \<open>The shape of the room store that every reachable state has (keys are distinct
  and each room sits under its own id), whole-number capacities, and requests that ask
  for a whole-number capacity or for none.\<close>

definition isInt :: "number \<Rightarrow> bool" where
  "isInt q = (of_int \<lfloor>q\<rfloor> = q)"

definition roomsWf :: "state \<Rightarrow> bool" where
  "roomsWf s =
     (distinct (map fst (rooms s))
      \<and> list_all (\<lambda>(k, r). room_id r = k \<and> isInt (room_maxUsers r)) (rooms s))"

fun integralReq :: "request \<Rightarrow> bool" where
  "integralReq (CreateRoom e nanoid (Some p)) =
     (case cr_maxUsers p of None \<Rightarrow> True | Some q \<Rightarrow> isInt q)"
| "integralReq r = True"

text \<open>Ann's room when she asks for two and a half users, with Bob in it.\<close>

definition halfRoom :: state where
  "halfRoom =
     snd (sdk_room_join demoEnv (Some (joinReq ''u_b'' ''room_r''))
       (snd (sdk_room_create demoEnv ''r'' (Some (newRoom ''u_a'' ''Test Room'' (Some (5 / 2))))
         threeUsers)))"

section \<open>Date-only strings and the server's time zone\<close>

text \<open>
  ECMAScript reads a date-only string \<open>YYYY-MM-DD\<close> as midnight UTC, while
  \<open>getFullYear\<close>, \<open>getMonth\<close> and \<open>getDate\<close> answer in the server's local time. With
  the local clock \<open>offset\<close> minutes ahead of UTC (between \<open>-720\<close> and \<open>840\<close>), the local
  fields of that instant are those of the day itself when \<open>offset\<close> is not negative and
  those of the day before when it is. \<open>parseDateOnly\<close> is \<open>new Date(s)\<close> seen through the
  getters for the date-only strings of real calendar days; it does not cover the other
  formats \<open>Date\<close> accepts and is used in concrete environments only.
\<close>

definition prevDay :: "Date \<Rightarrow> Date" where
  "prevDay t =
     (if getDate t > 1
      then t\<lparr>getDate := getDate t - 1\<rparr>
      else if getMonth t > 0
      then t\<lparr>getMonth := getMonth t - 1,
              getDate := daysInMonth (getFullYear t) (getMonth t - 1)\<rparr>
      else \<lparr>getFullYear = getFullYear t - 1, getMonth = 11, getDate = 31\<rparr>)"

definition localOfUtcMidnight :: "int \<Rightarrow> Date \<Rightarrow> Date" where
  "localOfUtcMidnight offset d = (if offset < 0 then prevDay d else d)"

definition isDigit :: "char \<Rightarrow> bool" where
  "isDigit c = (48 \<le> (of_char c :: nat) \<and> (of_char c :: nat) \<le> 57)"

definition digitsVal :: "string \<Rightarrow> int option" where
  "digitsVal s =
     (if s \<noteq> [] \<and> list_all isDigit s
      then Some (foldl (\<lambda>a c. 10 * a + (int (of_char c) - 48)) 0 s)
      else None)"

definition parseDateOnly :: "int \<Rightarrow> string \<Rightarrow> Date option" where
  "parseDateOnly offset s =
     (if length s = 10 \<and> s ! 4 = CHR ''-'' \<and> s ! 7 = CHR ''-''
      then (case (digitsVal (take 4 s), digitsVal (take 2 (drop 5 s)), digitsVal (drop 8 s)) of
              (Some y, Some m, Some d) \<Rightarrow>
                if 1 \<le> m \<and> m \<le> 12 \<and> 1 \<le> d \<and> d \<le> daysInMonth y (m - 1)
                then Some (localOfUtcMidnight offset
                             \<lparr>getFullYear = y, getMonth = m - 1, getDate = d\<rparr>)
                else None
            | _ \<Rightarrow> None)
      else None)"

text \<open>A server eight hours behind UTC on the morning of 3 November 2026 (local), and a
  server on UTC on the same day.\<close>

definition westEnv :: env where
  "westEnv =
     \<lparr>API_KEYS = [''demo-key''],
      parseDate = parseDateOnly (- 480),
      today = \<lparr>getFullYear = 2026, getMonth = 10, getDate = 3\<rparr>,
      todayIso = ''2026-11-03'',
      toISOString = (\<lambda>s. s @ ''T00:00:00.000Z''),
      nowMs = 1793728800000\<rparr>"

definition utcEnv :: env where
  "utcEnv = westEnv\<lparr>parseDate := parseDateOnly 0\<rparr>"

section \<open>Joining a room\<close>

text \<open>
  Claim C2. A \<open>sdk:room:join\<close> request with a valid apiKey, an existing user and an
  existing room is answered \<open>ROOM_FULL\<close> exactly when the user is not yet a member of the
  room and the number of members has reached the room's \<open>maxUsers\<close>; it fails in no other
  way. A user who is already a member is let in again, also at capacity, and the stores
  (so the membership set) are left as they were.
\<close>

theorem C2_join_room_full_iff:
  assumes key: "isValidApiKey e (jr_apiKey p)"
    and user: "map_of (users s) (jr_userId p) \<noteq> None"
    and room: "map_of (rooms s) (jr_roomId p) = Some room"
  shows "(fst (sdk_room_join e (Some p) s) = err ''ROOM_FULL'' ''Room is full''
           \<longleftrightarrow> jr_userId p |\<notin>| membersOf s (room_id room)
               \<and> room_maxUsers room \<le> of_nat (fcard (membersOf s (room_id room))))
       \<and> (is_err (fst (sdk_room_join e (Some p) s))
           \<longleftrightarrow> fst (sdk_room_join e (Some p) s) = err ''ROOM_FULL'' ''Room is full'')
       \<and> (jr_userId p |\<in>| membersOf s (room_id room)
           \<longrightarrow> \<not> is_err (fst (sdk_room_join e (Some p) s))
               \<and> membersOf (snd (sdk_room_join e (Some p) s)) (room_id room)
                   = membersOf s (room_id room)
               \<and> snd (sdk_room_join e (Some p) s) = s)"
proof -
  have upd: "jr_userId p |\<in>| membersOf s (room_id room) \<Longrightarrow>
    AList.update (room_id room) (finsert (jr_userId p) (membersOf s (room_id room))) (roomMembers s)
      = roomMembers s"
    by (rule update_triv) (auto simp: membersOf_def finsert_absorb split: option.splits)
  show ?thesis
    using key user room upd
    by (auto simp: sdk_room_join_def Let_def)
qed

theorem C2_join_room_full_iff_witness:
  "fst (sdk_room_join demoEnv (Some (joinReq ''u_c'' ''room_r'')) fullRoom)
     = err ''ROOM_FULL'' ''Room is full''
   \<and> \<not> is_err (fst (sdk_room_join demoEnv (Some (joinReq ''u_a'' ''room_r'')) fullRoom))
   \<and> snd (sdk_room_join demoEnv (Some (joinReq ''u_a'' ''room_r'')) fullRoom) = fullRoom"
proof -
  have keyc: "isValidApiKey demoEnv (jr_apiKey (joinReq ''u_c'' ''room_r''))"
    and keya: "isValidApiKey demoEnv (jr_apiKey (joinReq ''u_a'' ''room_r''))"
    by code_simp+
  have userc: "map_of (users fullRoom) (jr_userId (joinReq ''u_c'' ''room_r'')) \<noteq> None"
    and usera: "map_of (users fullRoom) (jr_userId (joinReq ''u_a'' ''room_r'')) \<noteq> None"
    by code_simp+
  have roomc: "map_of (rooms fullRoom) (jr_roomId (joinReq ''u_c'' ''room_r'')) = Some testRoom"
    and rooma: "map_of (rooms fullRoom) (jr_roomId (joinReq ''u_a'' ''room_r'')) = Some testRoom"
    by code_simp+
  have full: "jr_userId (joinReq ''u_c'' ''room_r'') |\<notin>| membersOf fullRoom (room_id testRoom)
      \<and> room_maxUsers testRoom \<le> of_nat (fcard (membersOf fullRoom (room_id testRoom)))"
    by code_simp
  have member: "jr_userId (joinReq ''u_a'' ''room_r'') |\<in>| membersOf fullRoom (room_id testRoom)"
    by code_simp
  show ?thesis
    using C2_join_room_full_iff [OF keyc userc roomc] C2_join_room_full_iff [OF keya usera rooma]
      full member
    by blast
qed

section \<open>Errors change nothing\<close>

text \<open>
  Claim C3. Whenever \<open>sdk:user:create\<close>, \<open>sdk:room:create\<close>, \<open>sdk:room:join\<close> or
  \<open>sdk:message:send\<close> answers with an error, on any payload (an absent one too) and in
  any state of the stores, the four stores are exactly what they were before the request.
\<close>

theorem C3_error_leaves_stores:
  "(is_err (fst (sdk_user_create e n pu s)) \<longrightarrow> snd (sdk_user_create e n pu s) = s)
   \<and> (is_err (fst (sdk_room_create e n pr s)) \<longrightarrow> snd (sdk_room_create e n pr s) = s)
   \<and> (is_err (fst (sdk_room_join e pj s)) \<longrightarrow> snd (sdk_room_join e pj s) = s)
   \<and> (is_err (fst (sdk_message_send e n pm s)) \<longrightarrow> snd (sdk_message_send e n pm s) = s)"
proof (intro conjI impI)
  assume "is_err (fst (sdk_user_create e n pu s))"
  then show "snd (sdk_user_create e n pu s) = s"
    by (cases pu) (auto simp: sdk_user_create_def Let_def split: if_splits)
next
  assume "is_err (fst (sdk_room_create e n pr s))"
  then show "snd (sdk_room_create e n pr s) = s"
    by (cases pr) (auto simp: sdk_room_create_def Let_def split: if_splits)
next
  assume "is_err (fst (sdk_room_join e pj s))"
  then show "snd (sdk_room_join e pj s) = s"
    by (cases pj) (auto simp: sdk_room_join_def Let_def split: if_splits option.splits)
next
  assume "is_err (fst (sdk_message_send e n pm s))"
  then show "snd (sdk_message_send e n pm s) = s"
    by (cases pm) (auto simp: sdk_message_send_def Let_def split: if_splits option.splits)
qed

theorem C3_error_leaves_stores_witness:
  "snd (sdk_user_create demoEnv ''d'' (Some (newUser ''Dee'' ''2008-11-04'')) fullRoom) = fullRoom
   \<and> snd (sdk_room_create demoEnv ''d'' (Some (newRoom ''u_d'' ''Den'' None)) fullRoom) = fullRoom
   \<and> snd (sdk_room_join demoEnv (Some (joinReq ''u_c'' ''room_r'')) fullRoom) = fullRoom
   \<and> snd (sdk_message_send demoEnv ''d'' (Some (sendReq ''u_c'' ''room_r'' ''hi'')) fullRoom)
       = fullRoom"
proof -
  have "is_err (fst (sdk_user_create demoEnv ''d'' (Some (newUser ''Dee'' ''2008-11-04'')) fullRoom))"
    and "is_err (fst (sdk_room_create demoEnv ''d'' (Some (newRoom ''u_d'' ''Den'' None)) fullRoom))"
    and "is_err (fst (sdk_room_join demoEnv (Some (joinReq ''u_c'' ''room_r'')) fullRoom))"
    and "is_err (fst (sdk_message_send demoEnv ''d'' (Some (sendReq ''u_c'' ''room_r'' ''hi''))
           fullRoom))"
    by code_simp+
  then show ?thesis
    using C3_error_leaves_stores [of demoEnv "''d''" "Some (newUser ''Dee'' ''2008-11-04'')"
        fullRoom "Some (newRoom ''u_d'' ''Den'' None)" "Some (joinReq ''u_c'' ''room_r'')"
        "Some (sendReq ''u_c'' ''room_r'' ''hi'')"]
    by blast
qed

section \<open>The order of the checks\<close>

text \<open>
  Claim C4, as the code has it. \<open>sdk:message:send\<close> looks the sender up before the room:
  with a valid apiKey, a \<open>userId\<close> that names no user is answered \<open>USER_NOT_FOUND\<close>
  whatever the \<open>roomId\<close> is, and \<open>ROOM_NOT_FOUND\<close> is the answer when the user exists and
  the \<open>roomId\<close> names no room. Neither answer changes the stores.
\<close>

theorem C4_send_checks_user_first:
  assumes key: "isValidApiKey e (sm_apiKey p)"
  shows "(map_of (users s) (sm_userId p) = None
           \<longrightarrow> sdk_message_send e n (Some p) s = (err ''USER_NOT_FOUND'' ''User not found'', s))
       \<and> (map_of (users s) (sm_userId p) \<noteq> None \<and> map_of (rooms s) (sm_roomId p) = None
           \<longrightarrow> sdk_message_send e n (Some p) s = (err ''ROOM_NOT_FOUND'' ''Room not found'', s))"
  using key by (auto simp: sdk_message_send_def)

theorem C4_send_checks_user_first_witness:
  "sdk_message_send demoEnv ''m'' (Some (sendReq ''u_x'' ''room_x'' ''hi'')) fullRoom
     = (err ''USER_NOT_FOUND'' ''User not found'', fullRoom)
   \<and> sdk_message_send demoEnv ''m'' (Some (sendReq ''u_a'' ''room_x'' ''hi'')) fullRoom
     = (err ''ROOM_NOT_FOUND'' ''Room not found'', fullRoom)"
proof -
  have keyx: "isValidApiKey demoEnv (sm_apiKey (sendReq ''u_x'' ''room_x'' ''hi''))"
    and keya: "isValidApiKey demoEnv (sm_apiKey (sendReq ''u_a'' ''room_x'' ''hi''))"
    by code_simp+
  have nouser: "map_of (users fullRoom) (sm_userId (sendReq ''u_x'' ''room_x'' ''hi'')) = None"
    by code_simp
  have noroom: "map_of (users fullRoom) (sm_userId (sendReq ''u_a'' ''room_x'' ''hi'')) \<noteq> None
      \<and> map_of (rooms fullRoom) (sm_roomId (sendReq ''u_a'' ''room_x'' ''hi'')) = None"
    by code_simp
  show ?thesis
    using C4_send_checks_user_first [OF keyx, of fullRoom "''m''"]
      C4_send_checks_user_first [OF keya, of fullRoom "''m''"] nouser noroom
    by blast
qed

text \<open>The claim as it was stated (room before sender) fails when neither exists: the
  answer is \<open>USER_NOT_FOUND\<close>, not \<open>ROOM_NOT_FOUND\<close>.\<close>

theorem C4_counterexample:
  "isValidApiKey demoEnv (sm_apiKey (sendReq ''u_x'' ''room_x'' ''hi''))
   \<and> map_of (rooms (seedRooms demoEnv)) (sm_roomId (sendReq ''u_x'' ''room_x'' ''hi'')) = None
   \<and> fst (sdk_message_send demoEnv ''m'' (Some (sendReq ''u_x'' ''room_x'' ''hi''))
        (seedRooms demoEnv)) = err ''USER_NOT_FOUND'' ''User not found''
   \<and> err_code (fst (sdk_message_send demoEnv ''m'' (Some (sendReq ''u_x'' ''room_x'' ''hi''))
        (seedRooms demoEnv))) \<noteq> Some ''ROOM_NOT_FOUND''"
  by code_simp

text \<open>
  Claim C5, as the code has it. \<open>sdk:room:create\<close> checks the creator right after the
  apiKey and before the room name and the start date: with a valid apiKey, a \<open>userId\<close>
  that names no user is answered \<open>USER_NOT_FOUND\<close> whatever the room name is; when the
  user exists, a room name whose trimmed length is 0 or more than 50 is answered
  \<open>INVALID_ROOM_NAME\<close>; and the start date is checked after the name.
\<close>

theorem C5_create_checks_user_first:
  assumes key: "isValidApiKey e (cr_apiKey p)"
  shows "(map_of (users s) (cr_userId p) = None
           \<longrightarrow> sdk_room_create e n (Some p) s = (err ''USER_NOT_FOUND'' ''User not found'', s))
       \<and> (map_of (users s) (cr_userId p) \<noteq> None
            \<and> (length (trim (cr_roomName p)) = 0 \<or> length (trim (cr_roomName p)) > 50)
           \<longrightarrow> err_code (fst (sdk_room_create e n (Some p) s)) = Some ''INVALID_ROOM_NAME''
               \<and> snd (sdk_room_create e n (Some p) s) = s)
       \<and> (map_of (users s) (cr_userId p) \<noteq> None
            \<and> 0 < length (trim (cr_roomName p)) \<and> length (trim (cr_roomName p)) \<le> 50
            \<and> \<not> isStartDateNotPast e
                  (case cr_startDate p of None \<Rightarrow> todayIso e
                   | Some d \<Rightarrow> if d = [] then todayIso e else d)
           \<longrightarrow> sdk_room_create e n (Some p) s
                 = (err ''INVALID_START_DATE'' ''Start date cannot be in the past'', s))"
  using key by (auto simp: sdk_room_create_def Let_def)

theorem C5_create_checks_user_first_witness:
  "sdk_room_create demoEnv ''r'' (Some (newRoom ''u_x'' ''   '' None)) fullRoom
     = (err ''USER_NOT_FOUND'' ''User not found'', fullRoom)
   \<and> err_code (fst (sdk_room_create demoEnv ''r'' (Some (newRoom ''u_a'' ''   '' None)) fullRoom))
     = Some ''INVALID_ROOM_NAME''
   \<and> sdk_room_create demoEnv ''r''
       (Some ((newRoom ''u_a'' ''Den'' None)\<lparr>cr_startDate := Some ''2000-01-01''\<rparr>)) fullRoom
     = (err ''INVALID_START_DATE'' ''Start date cannot be in the past'', fullRoom)"
proof -
  have keys: "isValidApiKey demoEnv (cr_apiKey (newRoom ''u_x'' ''   '' None))"
    "isValidApiKey demoEnv (cr_apiKey (newRoom ''u_a'' ''   '' None))"
    "isValidApiKey demoEnv
       (cr_apiKey ((newRoom ''u_a'' ''Den'' None)\<lparr>cr_startDate := Some ''2000-01-01''\<rparr>))"
    by code_simp+
  have nouser: "map_of (users fullRoom) (cr_userId (newRoom ''u_x'' ''   '' None)) = None"
    by code_simp
  have blank: "map_of (users fullRoom) (cr_userId (newRoom ''u_a'' ''   '' None)) \<noteq> None
      \<and> (length (trim (cr_roomName (newRoom ''u_a'' ''   '' None))) = 0
          \<or> length (trim (cr_roomName (newRoom ''u_a'' ''   '' None))) > 50)"
    by code_simp
  have past: "map_of (users fullRoom)
        (cr_userId ((newRoom ''u_a'' ''Den'' None)\<lparr>cr_startDate := Some ''2000-01-01''\<rparr>))
        \<noteq> None
      \<and> 0 < length (trim (cr_roomName
            ((newRoom ''u_a'' ''Den'' None)\<lparr>cr_startDate := Some ''2000-01-01''\<rparr>)))
      \<and> length (trim (cr_roomName
            ((newRoom ''u_a'' ''Den'' None)\<lparr>cr_startDate := Some ''2000-01-01''\<rparr>))) \<le> 50
      \<and> \<not> isStartDateNotPast demoEnv
            (case cr_startDate
                ((newRoom ''u_a'' ''Den'' None)\<lparr>cr_startDate := Some ''2000-01-01''\<rparr>) of
               None \<Rightarrow> todayIso demoEnv
             | Some d \<Rightarrow> if d = [] then todayIso demoEnv else d)"
    by code_simp
  show ?thesis
    using C5_create_checks_user_first [OF keys(1), of fullRoom "''r''"]
      C5_create_checks_user_first [OF keys(2), of fullRoom "''r''"]
      C5_create_checks_user_first [OF keys(3), of fullRoom "''r''"]
      nouser blank past
    by blast
qed

text \<open>The claim as it was stated (name before creator) fails for an unknown user and
  a blank room name: the answer is \<open>USER_NOT_FOUND\<close>, not \<open>INVALID_ROOM_NAME\<close>.\<close>

theorem C5_counterexample:
  "isValidApiKey demoEnv (cr_apiKey (newRoom ''u_x'' ''   '' None))
   \<and> map_of (users (seedRooms demoEnv)) (cr_userId (newRoom ''u_x'' ''   '' None)) = None
   \<and> length (trim (cr_roomName (newRoom ''u_x'' ''   '' None))) = 0
   \<and> fst (sdk_room_create demoEnv ''r'' (Some (newRoom ''u_x'' ''   '' None)) (seedRooms demoEnv))
       = err ''USER_NOT_FOUND'' ''User not found''
   \<and> err_code (fst (sdk_room_create demoEnv ''r'' (Some (newRoom ''u_x'' ''   '' None))
        (seedRooms demoEnv))) \<noteq> Some ''INVALID_ROOM_NAME''"
  by code_simp

text \<open>
  Claim C6, as the code has it. On a payload that is present and whose apiKey is not in
  the key list, each of the five handlers answers \<open>UNAUTHORIZED\<close> and nothing else is
  checked or changed. On an absent payload \<open>sdk:room:list\<close> answers \<open>UNAUTHORIZED\<close> too,
  while the other four answer \<open>BAD_REQUEST\<close>: their test for a payload comes before the
  test of the apiKey.
\<close>

theorem C6_unauthorized_first:
  "(\<not> isValidApiKey e (lr_apiKey pl)
      \<longrightarrow> sdk_room_list e (Some pl) s = err ''UNAUTHORIZED'' ''Invalid apiKey'')
   \<and> (\<not> isValidApiKey e (cu_apiKey pu)
      \<longrightarrow> sdk_user_create e n (Some pu) s = (err ''UNAUTHORIZED'' ''Invalid apiKey'', s))
   \<and> (\<not> isValidApiKey e (cr_apiKey pr)
      \<longrightarrow> sdk_room_create e n (Some pr) s = (err ''UNAUTHORIZED'' ''Invalid apiKey'', s))
   \<and> (\<not> isValidApiKey e (jr_apiKey pj)
      \<longrightarrow> sdk_room_join e (Some pj) s = (err ''UNAUTHORIZED'' ''Invalid apiKey'', s))
   \<and> (\<not> isValidApiKey e (sm_apiKey pm)
      \<longrightarrow> sdk_message_send e n (Some pm) s = (err ''UNAUTHORIZED'' ''Invalid apiKey'', s))
   \<and> sdk_room_list e None s = err ''UNAUTHORIZED'' ''Invalid apiKey''
   \<and> sdk_user_create e n None s = (err ''BAD_REQUEST'' ''Payload required'', s)
   \<and> sdk_room_create e n None s = (err ''BAD_REQUEST'' ''Payload required'', s)
   \<and> sdk_room_join e None s = (err ''BAD_REQUEST'' ''Payload required'', s)
   \<and> sdk_message_send e n None s = (err ''BAD_REQUEST'' ''Payload required'', s)"
  by (simp add: sdk_room_list_def sdk_user_create_def sdk_room_create_def sdk_room_join_def
      sdk_message_send_def)

theorem C6_unauthorized_first_witness:
  "sdk_room_list demoEnv (Some \<lparr>lr_apiKey = ''bad''\<rparr>) fullRoom
     = err ''UNAUTHORIZED'' ''Invalid apiKey''
   \<and> sdk_user_create demoEnv ''x'' (Some ((newUser ''1'' [])\<lparr>cu_apiKey := ''bad''\<rparr>)) fullRoom
     = (err ''UNAUTHORIZED'' ''Invalid apiKey'', fullRoom)
   \<and> sdk_room_create demoEnv ''x'' (Some ((newRoom ''u_x'' [] None)\<lparr>cr_apiKey := ''bad''\<rparr>))
       fullRoom
     = (err ''UNAUTHORIZED'' ''Invalid apiKey'', fullRoom)
   \<and> sdk_room_join demoEnv (Some ((joinReq ''u_x'' ''room_x'')\<lparr>jr_apiKey := ''bad''\<rparr>)) fullRoom
     = (err ''UNAUTHORIZED'' ''Invalid apiKey'', fullRoom)
   \<and> sdk_message_send demoEnv ''x''
       (Some ((sendReq ''u_x'' ''room_x'' [])\<lparr>sm_apiKey := ''bad''\<rparr>)) fullRoom
     = (err ''UNAUTHORIZED'' ''Invalid apiKey'', fullRoom)"
proof -
  have "\<not> isValidApiKey demoEnv (lr_apiKey \<lparr>lr_apiKey = ''bad''\<rparr>)"
    and "\<not> isValidApiKey demoEnv (cu_apiKey ((newUser ''1'' [])\<lparr>cu_apiKey := ''bad''\<rparr>))"
    and "\<not> isValidApiKey demoEnv (cr_apiKey ((newRoom ''u_x'' [] None)\<lparr>cr_apiKey := ''bad''\<rparr>))"
    and "\<not> isValidApiKey demoEnv (jr_apiKey ((joinReq ''u_x'' ''room_x'')\<lparr>jr_apiKey := ''bad''\<rparr>))"
    and "\<not> isValidApiKey demoEnv
           (sm_apiKey ((sendReq ''u_x'' ''room_x'' [])\<lparr>sm_apiKey := ''bad''\<rparr>))"
    by code_simp+
  then show ?thesis
    using C6_unauthorized_first [of demoEnv "\<lparr>lr_apiKey = ''bad''\<rparr>" fullRoom
        "(newUser ''1'' [])\<lparr>cu_apiKey := ''bad''\<rparr>" "''x''"
        "(newRoom ''u_x'' [] None)\<lparr>cr_apiKey := ''bad''\<rparr>"
        "(joinReq ''u_x'' ''room_x'')\<lparr>jr_apiKey := ''bad''\<rparr>"
        "(sendReq ''u_x'' ''room_x'' [])\<lparr>sm_apiKey := ''bad''\<rparr>"]
    by blast
qed

text \<open>The claim as it was stated fails on an absent payload: the four handlers that
  change the stores answer \<open>BAD_REQUEST\<close>, not \<open>UNAUTHORIZED\<close>.\<close>

theorem C6_counterexample:
  "fst (sdk_user_create demoEnv ''x'' None (seedRooms demoEnv))
     = err ''BAD_REQUEST'' ''Payload required''
   \<and> fst (sdk_room_create demoEnv ''x'' None (seedRooms demoEnv))
     = err ''BAD_REQUEST'' ''Payload required''
   \<and> fst (sdk_room_join demoEnv None (seedRooms demoEnv))
     = err ''BAD_REQUEST'' ''Payload required''
   \<and> fst (sdk_message_send demoEnv ''x'' None (seedRooms demoEnv))
     = err ''BAD_REQUEST'' ''Payload required''
   \<and> err_code (fst (sdk_user_create demoEnv ''x'' None (seedRooms demoEnv)))
     \<noteq> Some ''UNAUTHORIZED''"
  by code_simp

section \<open>The capacity of a new room\<close>

text \<open>
  Claim C7. \<open>sdk:room:create\<close> never fails because of the requested \<open>maxUsers\<close>: an
  error it answers is the same for any other requested value, and a request that passes
  the checks of the apiKey, the creator, the room name and the start date succeeds. The
  room returned and stored has \<open>maxUsers = max(2, min(10, n))\<close> where \<open>n\<close> is the requested
  value, or 2 when none was given; so a request for 1 gives capacity 2 and a request for
  99 gives capacity 10.
\<close>

theorem C7_room_create_clamps_maxUsers:
  "(fst (sdk_room_create e nid (Some p) s) = err c m
      \<longrightarrow> fst (sdk_room_create e nid (Some (p\<lparr>cr_maxUsers := n'\<rparr>)) s) = err c m)
   \<and> (fst (sdk_room_create e nid (Some p) s) = ok room
      \<longrightarrow> room_maxUsers room = max 2 (min 10 (case cr_maxUsers p of None \<Rightarrow> 2 | Some n \<Rightarrow> n))
          \<and> map_of (rooms (snd (sdk_room_create e nid (Some p) s))) (room_id room) = Some room
          \<and> (cr_maxUsers p = Some 1 \<longrightarrow> room_maxUsers room = 2)
          \<and> (cr_maxUsers p = Some 99 \<longrightarrow> room_maxUsers room = 10))
   \<and> (isValidApiKey e (cr_apiKey p) \<and> map_of (users s) (cr_userId p) \<noteq> None
        \<and> 0 < length (trim (cr_roomName p)) \<and> length (trim (cr_roomName p)) \<le> 50
        \<and> isStartDateNotPast e
              (case cr_startDate p of None \<Rightarrow> todayIso e
               | Some d \<Rightarrow> if d = [] then todayIso e else d)
      \<longrightarrow> \<not> is_err (fst (sdk_room_create e nid (Some p) s)))"
  by (auto simp: sdk_room_create_def Let_def update_conv' split: if_splits)

theorem C7_room_create_clamps_maxUsers_witness:
  "fst (sdk_room_create demoEnv ''r'' (Some (newRoom ''u_a'' ''Test Room'' (Some 1))) threeUsers)
     = ok testRoom
   \<and> room_maxUsers testRoom = 2
   \<and> map_of (rooms (snd (sdk_room_create demoEnv ''r''
          (Some (newRoom ''u_a'' ''Test Room'' (Some 1))) threeUsers))) (room_id testRoom)
       = Some testRoom
   \<and> fst (sdk_room_create demoEnv ''r'' (Some (newRoom ''u_a'' ''Test Room'' (Some 99))) threeUsers)
     = ok (testRoom\<lparr>room_maxUsers := 10\<rparr>)
   \<and> room_maxUsers (testRoom\<lparr>room_maxUsers := 10\<rparr>) = 10
   \<and> fst (sdk_room_create demoEnv ''r''
          (Some ((newRoom ''u_x'' ''Test Room'' (Some 1))\<lparr>cr_maxUsers := Some 5\<rparr>)) threeUsers)
     = err ''USER_NOT_FOUND'' ''User not found''"
proof -
  have one: "fst (sdk_room_create demoEnv ''r'' (Some (newRoom ''u_a'' ''Test Room'' (Some 1)))
      threeUsers) = ok testRoom"
    and big: "fst (sdk_room_create demoEnv ''r'' (Some (newRoom ''u_a'' ''Test Room'' (Some 99)))
      threeUsers) = ok (testRoom\<lparr>room_maxUsers := 10\<rparr>)"
    and bad: "fst (sdk_room_create demoEnv ''r'' (Some (newRoom ''u_x'' ''Test Room'' (Some 1)))
      threeUsers) = err ''USER_NOT_FOUND'' ''User not found''"
    by code_simp+
  have req: "cr_maxUsers (newRoom ''u_a'' ''Test Room'' (Some 1)) = Some 1"
    "cr_maxUsers (newRoom ''u_a'' ''Test Room'' (Some 99)) = Some 99"
    by (simp_all add: newRoom_def)
  show ?thesis
    using one big bad req
      C7_room_create_clamps_maxUsers [of demoEnv "''r''" "newRoom ''u_a'' ''Test Room'' (Some 1)"
        threeUsers _ _ _ testRoom]
      C7_room_create_clamps_maxUsers [of demoEnv "''r''" "newRoom ''u_a'' ''Test Room'' (Some 99)"
        threeUsers _ _ _ "testRoom\<lparr>room_maxUsers := 10\<rparr>"]
      C7_room_create_clamps_maxUsers [of demoEnv "''r''" "newRoom ''u_x'' ''Test Room'' (Some 1)"
        threeUsers "''USER_NOT_FOUND''" "''User not found''" "Some 5"]
    by blast
qed

section \<open>Onboarding\<close>

lemma trim_all_space: "list_all isWhiteSpace s \<Longrightarrow> trim s = []"
proof -
  assume "list_all isWhiteSpace s"
  then have d: "dropWhile isWhiteSpace s = []"
    by (induction s) simp_all
  show ?thesis
    unfolding trim_def d by simp
qed

lemma nameRegex_all_space: "s \<noteq> [] \<Longrightarrow> list_all isWhiteSpace s \<Longrightarrow> nameRegex s"
  by (simp add: nameRegex_def list_all_iff)

lemma isAtLeast18_exact:
  "parseDate e dob = Some (yearsBefore 18 (today e)) \<Longrightarrow> isAtLeast18 e dob"
  by (simp add: isAtLeast18_def yearsBefore_def Let_def)

lemma isAtLeast18_day_short:
  "parseDate e dob = Some (yearsBefore 18 (nextDay (today e))) \<Longrightarrow> \<not> isAtLeast18 e dob"
  by (simp add: isAtLeast18_def yearsBefore_def nextDay_def Let_def)

text \<open>
  The adult check on the fields of the two \<open>Date\<close> objects: it passes exactly when the
  birth date read by \<open>new Date(dob)\<close> is valid and its year, month and day of the month,
  with 18 added to the year, are not after today's. So fields that are today's 18 years
  back pass, and fields that are tomorrow's 18 years back fail with \<open>INVALID_DOB\<close>.
\<close>

lemma isAtLeast18_char:
  "isAtLeast18 e dob \<longleftrightarrow>
     (\<exists>d. parseDate e dob = Some d
        \<and> (getFullYear d + 18 < getFullYear (today e)
            \<or> (getFullYear d + 18 = getFullYear (today e)
                \<and> (getMonth d < getMonth (today e)
                    \<or> (getMonth d = getMonth (today e) \<and> getDate d \<le> getDate (today e))))))"
  by (cases "parseDate e dob") (auto simp: isAtLeast18_def Let_def)

lemma age_boundary_on_fields:
  assumes key: "isValidApiKey e (cu_apiKey p)"
    and terms: "cu_agreedToTerms p"
    and name: "cu_name p \<noteq> []" "length (cu_name p) \<le> 30" "nameRegex (cu_name p)"
    and email: "cu_email p \<noteq> []" "emailRegex (cu_email p)"
    and dob: "cu_dob p \<noteq> []"
  shows "(parseDate e (cu_dob p) = Some (yearsBefore 18 (today e))
            \<longrightarrow> isAtLeast18 e (cu_dob p) \<and> \<not> is_err (fst (sdk_user_create e n (Some p) s)))
       \<and> (parseDate e (cu_dob p) = Some (yearsBefore 18 (nextDay (today e)))
            \<longrightarrow> \<not> isAtLeast18 e (cu_dob p)
                \<and> sdk_user_create e n (Some p) s = (err ''INVALID_DOB'' ''Must be at least 18'', s))"
  using key terms name email dob isAtLeast18_exact [of e "cu_dob p"]
    isAtLeast18_day_short [of e "cu_dob p"]
  by (auto simp: sdk_user_create_def Let_def)

lemma age_boundary_on_fields_utc:
  "\<not> is_err (fst (sdk_user_create demoEnv ''e'' (Some (newUser ''Eve'' ''2008-11-03'')) fullRoom))
   \<and> sdk_user_create demoEnv ''e'' (Some (newUser ''Eve'' ''2008-11-04'')) fullRoom
       = (err ''INVALID_DOB'' ''Must be at least 18'', fullRoom)"
proof -
  have valid: "isValidApiKey demoEnv (cu_apiKey (newUser ''Eve'' d))"
    "cu_agreedToTerms (newUser ''Eve'' d)"
    "cu_name (newUser ''Eve'' d) \<noteq> []" "length (cu_name (newUser ''Eve'' d)) \<le> 30"
    "nameRegex (cu_name (newUser ''Eve'' d))"
    "cu_email (newUser ''Eve'' d) \<noteq> []" "emailRegex (cu_email (newUser ''Eve'' d))" for d
    by (simp_all add: newUser_def isValidApiKey_def demoEnv_def nameRegex_def emailRegex_def
        notSpaceAt_def isWhiteSpace_def isLetter_def)
  have d1: "cu_dob (newUser ''Eve'' ''2008-11-03'') \<noteq> []"
    and d2: "cu_dob (newUser ''Eve'' ''2008-11-04'') \<noteq> []"
    by code_simp+
  have exact: "parseDate demoEnv (cu_dob (newUser ''Eve'' ''2008-11-03''))
      = Some (yearsBefore 18 (today demoEnv))"
    and short: "parseDate demoEnv (cu_dob (newUser ''Eve'' ''2008-11-04''))
      = Some (yearsBefore 18 (nextDay (today demoEnv)))"
    by code_simp+
  show ?thesis
    using age_boundary_on_fields [OF valid d1, of "''e''" fullRoom]
      age_boundary_on_fields [OF valid d2, of "''e''" fullRoom] exact short
    by blast
qed

text \<open>
  Claim C8 says that a birth date exactly 18 years before today passes and that a birth
  date whose 18th birthday is tomorrow is answered \<open>INVALID_DOB\<close>. The second half
  fails on a server whose clock is behind UTC: the date-only string \<open>2008-11-04\<close> is
  read as midnight UTC, the local getters answer 3 November 2008, and on the local day
  3 November 2026 the comparison \<open>3 >= 3\<close> accepts a user who turns 18 tomorrow. The same
  request on a server on UTC is answered \<open>INVALID_DOB\<close>.
\<close>

theorem C8_birthday_tomorrow_accepted:
  "yearsBefore 18 (nextDay (today westEnv))
     = \<lparr>getFullYear = 2008, getMonth = 10, getDate = 4\<rparr>
   \<and> parseDate westEnv ''2008-11-04'' = Some \<lparr>getFullYear = 2008, getMonth = 10, getDate = 3\<rparr>
   \<and> isAtLeast18 westEnv ''2008-11-04''
   \<and> fst (sdk_user_create westEnv ''e'' (Some (newUser ''Eve'' ''2008-11-04'')) (seedRooms westEnv))
       = ok \<lparr>user_id = ''u_e'', user_name = ''Eve'', user_email = ''a@b.co'',
              user_dob = ''2008-11-04T00:00:00.000Z'', user_gender = Male,
              user_createdAt = 1793728800000\<rparr>
   \<and> err_code (fst (sdk_user_create westEnv ''e'' (Some (newUser ''Eve'' ''2008-11-04''))
        (seedRooms westEnv))) \<noteq> Some ''INVALID_DOB''
   \<and> fst (sdk_user_create utcEnv ''e'' (Some (newUser ''Eve'' ''2008-11-04'')) (seedRooms utcEnv))
       = err ''INVALID_DOB'' ''Must be at least 18''"
  by code_simp

text \<open>
  Claim C10. A \<open>sdk:user:create\<close> request whose name is 1 to 30 white-space characters
  and whose other fields are valid succeeds: the name passes the length test and the
  regular expression, and it is trimmed only when the user is built, so the user
  returned and stored has the empty name.
\<close>

theorem C10_blank_name_accepted:
  assumes key: "isValidApiKey e (cu_apiKey p)"
    and terms: "cu_agreedToTerms p"
    and len: "1 \<le> length (cu_name p)" "length (cu_name p) \<le> 30"
    and blank: "list_all isWhiteSpace (cu_name p)"
    and email: "cu_email p \<noteq> []" "emailRegex (cu_email p)"
    and dob: "cu_dob p \<noteq> []" "isAtLeast18 e (cu_dob p)"
  shows "\<not> is_err (fst (sdk_user_create e n (Some p) s))
       \<and> map_option user_name (map_of (users (snd (sdk_user_create e n (Some p) s))) (''u_'' @ n))
           = Some []
       \<and> (\<exists>u. fst (sdk_user_create e n (Some p) s) = ok u \<and> user_name u = []
              \<and> user_id u = ''u_'' @ n)"
proof -
  have ne: "cu_name p \<noteq> []" using len by auto
  show ?thesis
    using key terms len email dob ne trim_all_space [OF blank] nameRegex_all_space [OF ne blank]
    by (simp add: sdk_user_create_def Let_def update_conv')
qed

theorem C10_blank_name_accepted_witness:
  "\<not> is_err (fst (sdk_user_create demoEnv ''w'' (Some (newUser ''   '' ''2000-01-01''))
          (seedRooms demoEnv)))
   \<and> map_option user_name (map_of (users (snd (sdk_user_create demoEnv ''w''
          (Some (newUser ''   '' ''2000-01-01'')) (seedRooms demoEnv)))) (''u_'' @ ''w'')) = Some []"
proof -
  have "isValidApiKey demoEnv (cu_apiKey (newUser ''   '' ''2000-01-01''))"
    and "cu_agreedToTerms (newUser ''   '' ''2000-01-01'')"
    and "1 \<le> length (cu_name (newUser ''   '' ''2000-01-01''))"
    and "length (cu_name (newUser ''   '' ''2000-01-01'')) \<le> 30"
    and "list_all isWhiteSpace (cu_name (newUser ''   '' ''2000-01-01''))"
    and "cu_email (newUser ''   '' ''2000-01-01'') \<noteq> []"
    and "emailRegex (cu_email (newUser ''   '' ''2000-01-01''))"
    and "cu_dob (newUser ''   '' ''2000-01-01'') \<noteq> []"
    and "isAtLeast18 demoEnv (cu_dob (newUser ''   '' ''2000-01-01''))"
    by code_simp+
  from C10_blank_name_accepted [OF this, of "''w''" "seedRooms demoEnv"]
  show ?thesis by blast
qed

section \<open>The message log and the history returned on join\<close>

lemma logOf_update:
  "logOf (s\<lparr>messagesByRoom := AList.update k v (messagesByRoom s)\<rparr>) k' =
     (if k' = k then v else logOf s k')"
  by (simp add: logOf_def update_conv')

lemma logOf_roomMembers_update [simp]:
  "logOf (s\<lparr>roomMembers := x\<rparr>) k = logOf s k"
  by (simp add: logOf_def)

lemma join_ok_recent:
  assumes "fst (sdk_room_join e (Some p) s) = ok (r, ms)"
  shows "map_of (rooms s) (jr_roomId p) = Some r
       \<and> ms = drop (length (logOf s (room_id r)) - 50) (logOf s (room_id r))"
  using assms
  by (auto simp: sdk_room_join_def Let_def split: if_splits option.splits)

lemma send_ok_log:
  assumes "sdk_message_send e n (Some p) s = (ok m, s')"
    and "map_of (rooms s) (sm_roomId p) = Some room"
  shows "logOf s' (room_id room) = logOf s (room_id room) @ [m]
       \<and> rooms s' = rooms s \<and> msg_text m = trim (sm_text p) \<and> msg_id m = ''m_'' @ n"
  using assms
  by (auto simp: sdk_message_send_def Let_def logOf_update split: if_splits option.splits)

lemma sendAll_log:
  assumes "map_of (rooms s) rid = Some room"
    and "list_all (\<lambda>(e, n, q). sm_roomId q = rid) reqs"
    and "fst (sendAll reqs s) = map ok msgs"
  shows "logOf (snd (sendAll reqs s)) (room_id room) = logOf s (room_id room) @ msgs
       \<and> rooms (snd (sendAll reqs s)) = rooms s
       \<and> map msg_text msgs = map (\<lambda>(e, n, q). trim (sm_text q)) reqs
       \<and> map msg_id msgs = map (\<lambda>(e, n, q). ''m_'' @ n) reqs"
  using assms
proof (induction reqs arbitrary: s msgs)
  case Nil
  then show ?case by simp
next
  case (Cons req reqs)
  obtain e n q where req: "req = (e, n, q)" by (cases req) auto
  obtain r s' where step: "sdk_message_send e n (Some q) s = (r, s')"
    by (cases "sdk_message_send e n (Some q) s") auto
  obtain rs s'' where rest: "sendAll reqs s' = (rs, s'')"
    by (cases "sendAll reqs s'") auto
  from Cons.prems(3) req step rest obtain m ms where
    msgs: "msgs = m # ms" and r: "r = ok m" and rs: "rs = map ok ms"
    by (cases msgs) auto
  from Cons.prems(2) req have rid: "sm_roomId q = rid" and all: "list_all (\<lambda>(e, n, q). sm_roomId q = rid) reqs"
    by auto
  from send_ok_log [OF step [unfolded r]] Cons.prems(1) rid
  have one: "logOf s' (room_id room) = logOf s (room_id room) @ [m]"
    "rooms s' = rooms s" "msg_text m = trim (sm_text q)" "msg_id m = ''m_'' @ n"
    by auto
  have "map_of (rooms s') rid = Some room" using one(2) Cons.prems(1) by simp
  from Cons.IH [OF this all, of ms] rest rs
  have ih: "logOf s'' (room_id room) = logOf s' (room_id room) @ ms"
    "rooms s'' = rooms s'"
    "map msg_text ms = map (\<lambda>(e, n, q). trim (sm_text q)) reqs"
    "map msg_id ms = map (\<lambda>(e, n, q). ''m_'' @ n) reqs"
    by auto
  show ?case
    using one ih by (simp add: req step rest msgs)
qed

text \<open>
  Claim C9. A successful \<open>sdk:room:join\<close> returns the last \<open>min(n, 50)\<close> messages of the
  room's log of \<open>n\<close> messages, in the order of the log. A run of \<open>sdk:message:send\<close>
  requests to one room that all succeed appends the messages answered, in the order of
  the requests, to that room's log (each carrying the trimmed text of its request); so
  a join after the run returns the last 50 or fewer of them in send order.
\<close>

theorem C9_recent_history:
  "(fst (sdk_room_join e (Some p) s) = ok (r, ms)
      \<longrightarrow> ms = drop (length (logOf s (room_id r)) - 50) (logOf s (room_id r))
          \<and> length ms = min (length (logOf s (room_id r))) 50)
   \<and> (map_of (rooms s) rid = Some room
        \<and> list_all (\<lambda>(e, n, q). sm_roomId q = rid) reqs
        \<and> fst (sendAll reqs s) = map ok msgs
      \<longrightarrow> logOf (snd (sendAll reqs s)) (room_id room) = logOf s (room_id room) @ msgs
          \<and> map msg_text msgs = map (\<lambda>(e, n, q). trim (sm_text q)) reqs
          \<and> (jr_roomId p' = rid
               \<and> fst (sdk_room_join e' (Some p') (snd (sendAll reqs s))) = ok (r', ms')
             \<longrightarrow> ms' = drop (length (logOf s (room_id room) @ msgs) - 50)
                         (logOf s (room_id room) @ msgs)
                 \<and> length ms' \<le> 50))"
proof (intro conjI impI)
  assume a: "fst (sdk_room_join e (Some p) s) = ok (r, ms)"
  from join_ok_recent [OF a]
  show "ms = drop (length (logOf s (room_id r)) - 50) (logOf s (room_id r))"
    by simp
  then show "length ms = min (length (logOf s (room_id r))) 50"
    by simp
next
  assume b: "map_of (rooms s) rid = Some room
        \<and> list_all (\<lambda>(e, n, q). sm_roomId q = rid) reqs
        \<and> fst (sendAll reqs s) = map ok msgs"
  then have log: "logOf (snd (sendAll reqs s)) (room_id room) = logOf s (room_id room) @ msgs"
    and same: "rooms (snd (sendAll reqs s)) = rooms s"
    and texts: "map msg_text msgs = map (\<lambda>(e, n, q). trim (sm_text q)) reqs"
    using sendAll_log [of s rid room reqs msgs] by simp_all
  show "logOf (snd (sendAll reqs s)) (room_id room) = logOf s (room_id room) @ msgs"
    by (rule log)
  show "map msg_text msgs = map (\<lambda>(e, n, q). trim (sm_text q)) reqs"
    by (rule texts)
  assume c: "jr_roomId p' = rid
       \<and> fst (sdk_room_join e' (Some p') (snd (sendAll reqs s))) = ok (r', ms')"
  with join_ok_recent [of e' p' "snd (sendAll reqs s)" r' ms'] same b
  have "r' = room"
    and ms': "ms' = drop (length (logOf (snd (sendAll reqs s)) (room_id r')) - 50)
       (logOf (snd (sendAll reqs s)) (room_id r'))"
    by simp_all
  then show "ms' = drop (length (logOf s (room_id room) @ msgs) - 50)
      (logOf s (room_id room) @ msgs)"
    using log by simp
  then show "length ms' \<le> 50"
    by simp
qed

theorem C9_recent_history_witness:
  "fst (sdk_room_join demoEnv (Some (joinReq ''u_a'' ''room_r'')) chatty)
     = ok (testRoom, replicate 50 hiMsg)
   \<and> length (logOf chatty (room_id testRoom)) = 51
   \<and> replicate 50 hiMsg = drop (length (logOf chatty (room_id testRoom)) - 50)
        (logOf chatty (room_id testRoom))
   \<and> logOf (snd (sendAll twoSends fullRoom)) (room_id testRoom) = [hiMsg, yoMsg]
   \<and> fst (sdk_room_join demoEnv (Some (joinReq ''u_b'' ''room_r'')) (snd (sendAll twoSends fullRoom)))
     = ok (testRoom, [hiMsg, yoMsg])"
proof -
  have j1: "fst (sdk_room_join demoEnv (Some (joinReq ''u_a'' ''room_r'')) chatty)
      = ok (testRoom, replicate 50 hiMsg)"
    by code_simp
  have len: "length (logOf chatty (room_id testRoom)) = 51"
    by code_simp
  have room: "map_of (rooms fullRoom) ''room_r'' = Some testRoom"
    by code_simp
  have same: "list_all (\<lambda>(e, n, q). sm_roomId q = ''room_r'') twoSends"
    by code_simp
  have sent: "fst (sendAll twoSends fullRoom) = map ok [hiMsg, yoMsg]"
    by code_simp
  have empty: "logOf fullRoom (room_id testRoom) = []"
    by code_simp
  have j2: "jr_roomId (joinReq ''u_b'' ''room_r'') = ''room_r''"
    "fst (sdk_room_join demoEnv (Some (joinReq ''u_b'' ''room_r'')) (snd (sendAll twoSends fullRoom)))
      = ok (testRoom, [hiMsg, yoMsg])"
    by code_simp+
  show ?thesis
    using j1 len room same sent empty j2
      C9_recent_history [where e = demoEnv and p = "joinReq ''u_a'' ''room_r''" and s = chatty
        and r = testRoom and ms = "replicate 50 hiMsg"]
      C9_recent_history [where s = fullRoom and rid = "''room_r''" and room = testRoom
        and reqs = twoSends and msgs = "[hiMsg, yoMsg]" and p' = "joinReq ''u_b'' ''room_r''"
        and e' = demoEnv and r' = testRoom and ms' = "[hiMsg, yoMsg]"]
    by simp
qed

section \<open>The capacity invariant\<close>

text \<open>
  When every capacity asked for is a whole number (or none is given), every state
  reached from the seeded stores keeps each room within its \<open>maxUsers\<close>: a join adds a
  member only below the capacity, and one more than a count below a whole number is at
  most that number.
\<close>

lemma isInt_next: "isInt q \<Longrightarrow> of_nat n < q \<Longrightarrow> of_nat (Suc n) \<le> q"
proof -
  assume q: "isInt q" and lt: "of_nat n < q"
  from q have eq: "q = of_int \<lfloor>q\<rfloor>" unfolding isInt_def by (rule sym)
  from lt have "(of_int (int n) :: rat) < of_int \<lfloor>q\<rfloor>" using eq by simp
  then have "int n < \<lfloor>q\<rfloor>" by (simp only: of_int_less_iff)
  then have "int (Suc n) \<le> \<lfloor>q\<rfloor>" by simp
  then have "(of_int (int (Suc n)) :: rat) \<le> of_int \<lfloor>q\<rfloor>" by (simp only: of_int_le_iff)
  then show ?thesis using eq by simp
qed

lemma isInt_clamp: "isInt q \<Longrightarrow> isInt (max 2 (min 10 q))"
  by (auto simp: isInt_def max_def min_def)

lemma isInt_two: "isInt 2"
  by (simp add: isInt_def)

lemma roomsWf_lookup:
  "roomsWf s \<Longrightarrow> map_of (rooms s) k = Some r \<Longrightarrow> room_id r = k \<and> isInt (room_maxUsers r)"
  by (auto simp: roomsWf_def list_all_iff dest: map_of_SomeD)

lemma capacityOk_iff:
  assumes "roomsWf s"
  shows "capacityOk s \<longleftrightarrow>
    (\<forall>k r. map_of (rooms s) k = Some r \<longrightarrow> of_nat (fcard (membersOf s k)) \<le> room_maxUsers r)"
proof
  assume c: "capacityOk s"
  show "\<forall>k r. map_of (rooms s) k = Some r \<longrightarrow> of_nat (fcard (membersOf s k)) \<le> room_maxUsers r"
  proof (intro allI impI)
    fix k r assume l: "map_of (rooms s) k = Some r"
    then have "r \<in> snd ` set (rooms s)" by (force dest: map_of_SomeD)
    with c have "of_nat (fcard (membersOf s (room_id r))) \<le> room_maxUsers r"
      by (auto simp: capacityOk_def list_all_iff)
    with roomsWf_lookup [OF assms l] show "of_nat (fcard (membersOf s k)) \<le> room_maxUsers r"
      by simp
  qed
next
  assume a: "\<forall>k r. map_of (rooms s) k = Some r \<longrightarrow> of_nat (fcard (membersOf s k)) \<le> room_maxUsers r"
  have d: "distinct (map fst (rooms s))" using assms by (simp add: roomsWf_def)
  show "capacityOk s"
    unfolding capacityOk_def list_all_iff
  proof
    fix r assume "r \<in> set (map snd (rooms s))"
    then obtain k where kr: "(k, r) \<in> set (rooms s)" by auto
    with d have l: "map_of (rooms s) k = Some r" by simp
    with a have "of_nat (fcard (membersOf s k)) \<le> room_maxUsers r" by blast
    with roomsWf_lookup [OF assms l]
    show "of_nat (fcard (membersOf s (room_id r))) \<le> room_maxUsers r" by simp
  qed
qed

lemma roomsWf_update:
  assumes "roomsWf s" and "room_id room = k" and "isInt (room_maxUsers room)"
  shows "roomsWf (s\<lparr>rooms := AList.update k room (rooms s), roomMembers := rm, messagesByRoom := ml\<rparr>)"
proof -
  have d: "distinct (map fst (rooms s))" using assms(1) by (simp add: roomsWf_def)
  have "\<And>k' r'. (k', r') \<in> set (AList.update k room (rooms s))
      \<Longrightarrow> room_id r' = k' \<and> isInt (room_maxUsers r')"
  proof -
    fix k' r' assume "(k', r') \<in> set (AList.update k room (rooms s))"
    with distinct_update [OF d, of k room]
    have "map_of (AList.update k room (rooms s)) k' = Some r'" by simp
    then have "(k' = k \<and> r' = room) \<or> map_of (rooms s) k' = Some r'"
      by (auto simp: update_conv' split: if_splits)
    then show "room_id r' = k' \<and> isInt (room_maxUsers r')"
      using assms roomsWf_lookup [OF assms(1)] by auto
  qed
  then show ?thesis
    using distinct_update [OF d, of k room] by (auto simp: roomsWf_def list_all_iff)
qed

lemma membersOf_update:
  "membersOf (s\<lparr>roomMembers := AList.update k v (roomMembers s)\<rparr>) k' =
     (if k' = k then v else membersOf s k')"
  by (simp add: membersOf_def update_conv')

lemma create_preserves:
  assumes wf: "roomsWf s" and cap: "capacityOk s" and int: "integralReq (CreateRoom e n p)"
  shows "roomsWf (snd (sdk_room_create e n p s)) \<and> capacityOk (snd (sdk_room_create e n p s))"
proof (cases "is_err (fst (sdk_room_create e n p s))")
  case True
  then have "snd (sdk_room_create e n p s) = s"
    by (cases p) (auto simp: sdk_room_create_def Let_def split: if_splits)
  with wf cap show ?thesis by simp
next
  case False
  then obtain q where p: "p = Some q"
    by (cases p) (auto simp: sdk_room_create_def)
  define cap' where "cap' = max 2 (min 10 (case cr_maxUsers q of None \<Rightarrow> 2 | Some n \<Rightarrow> n))"
  define room where "room = \<lparr>room_id = ''room_'' @ n, room_name = trim (cr_roomName q),
      room_startDate = take 10 (toISOString e (case cr_startDate q of None \<Rightarrow> todayIso e
                                    | Some d \<Rightarrow> if d = [] then todayIso e else d)),
      room_maxUsers = cap', room_createdAt = nowMs e, room_createdByUserId = cr_userId q\<rparr>"
  define s' where "s' = s\<lparr>rooms := AList.update (''room_'' @ n) room (rooms s),
      roomMembers := AList.update (''room_'' @ n) (finsert (cr_userId q) {||}) (roomMembers s),
      messagesByRoom := AList.update (''room_'' @ n) [] (messagesByRoom s)\<rparr>"
  from False p have s': "snd (sdk_room_create e n p s) = s'"
    by (auto simp: sdk_room_create_def Let_def s'_def room_def cap'_def split: if_splits)
  have icap: "isInt cap'"
    using int p isInt_two by (auto simp: cap'_def intro!: isInt_clamp split: option.splits)
  have two: "2 \<le> cap'" by (simp add: cap'_def)
  have wf': "roomsWf s'"
    unfolding s'_def by (rule roomsWf_update [OF wf]) (simp_all add: room_def icap)
  have mem: "membersOf s' k = (if k = ''room_'' @ n then finsert (cr_userId q) {||} else membersOf s k)" for k
    by (simp add: s'_def membersOf_def update_conv')
  have look: "map_of (rooms s') k = (if k = ''room_'' @ n then Some room else map_of (rooms s) k)" for k
    by (simp add: s'_def update_conv')
  have "capacityOk s'"
    unfolding capacityOk_iff [OF wf']
  proof (intro allI impI)
    fix k r assume l: "map_of (rooms s') k = Some r"
    show "of_nat (fcard (membersOf s' k)) \<le> room_maxUsers r"
    proof (cases "k = ''room_'' @ n")
      case True
      with l look have "r = room" by simp
      then show ?thesis using True two by (simp add: mem room_def fcard_finsert_if fcard_fempty)
    next
      case False
      with l look have "map_of (rooms s) k = Some r" by simp
      with cap capacityOk_iff [OF wf] have "of_nat (fcard (membersOf s k)) \<le> room_maxUsers r"
        by blast
      then show ?thesis using False by (simp add: mem)
    qed
  qed
  with wf' s' show ?thesis by simp
qed

lemma join_preserves:
  assumes wf: "roomsWf s" and cap: "capacityOk s"
  shows "roomsWf (snd (sdk_room_join e p s)) \<and> capacityOk (snd (sdk_room_join e p s))"
proof (cases "is_err (fst (sdk_room_join e p s))")
  case True
  then have "snd (sdk_room_join e p s) = s"
    by (cases p) (auto simp: sdk_room_join_def Let_def split: if_splits option.splits)
  with wf cap show ?thesis by simp
next
  case False
  then obtain q room where p: "p = Some q" and room: "map_of (rooms s) (jr_roomId q) = Some room"
    and notfull: "\<not> (room_maxUsers room \<le> of_nat (fcard (membersOf s (room_id room)))
                     \<and> jr_userId q |\<notin>| membersOf s (room_id room))"
    by (cases p) (auto simp: sdk_room_join_def Let_def split: if_splits option.splits)
  define s' where "s' = s\<lparr>roomMembers := AList.update (room_id room)
      (finsert (jr_userId q) (membersOf s (room_id room))) (roomMembers s)\<rparr>"
  from False p room notfull have s': "snd (sdk_room_join e p s) = s'"
    by (auto simp: sdk_room_join_def Let_def s'_def split: if_splits option.splits)
  have wf': "roomsWf s'" using wf by (simp add: roomsWf_def s'_def)
  have rid: "room_id room = jr_roomId q" and int: "isInt (room_maxUsers room)"
    using roomsWf_lookup [OF wf room] by simp_all
  have mem: "membersOf s' k = (if k = room_id room
      then finsert (jr_userId q) (membersOf s (room_id room)) else membersOf s k)" for k
    unfolding s'_def by (rule membersOf_update)
  have "capacityOk s'"
    unfolding capacityOk_iff [OF wf']
  proof (intro allI impI)
    fix k r assume "map_of (rooms s') k = Some r"
    then have l: "map_of (rooms s) k = Some r" by (simp add: s'_def)
    with cap capacityOk_iff [OF wf] have old: "of_nat (fcard (membersOf s k)) \<le> room_maxUsers r"
      by blast
    show "of_nat (fcard (membersOf s' k)) \<le> room_maxUsers r"
    proof (cases "k = room_id room")
      case False
      then show ?thesis using old by (simp add: mem)
    next
      case True
      with l room rid have r: "r = room" by simp
      show ?thesis
      proof (cases "jr_userId q |\<in>| membersOf s (room_id room)")
        case True
        then show ?thesis using old \<open>k = room_id room\<close> by (simp add: mem finsert_absorb)
      next
        case False
        with notfull have "of_nat (fcard (membersOf s (room_id room))) < room_maxUsers room"
          by auto
        from isInt_next [OF int this] False show ?thesis
          using \<open>k = room_id room\<close> r by (simp add: mem fcard_finsert_if)
      qed
    qed
  qed
  with wf' s' show ?thesis by simp
qed

lemma user_create_rooms:
  "rooms (snd (sdk_user_create e n p s)) = rooms s
   \<and> roomMembers (snd (sdk_user_create e n p s)) = roomMembers s"
  by (cases p) (auto simp: sdk_user_create_def Let_def)

lemma message_send_rooms:
  "rooms (snd (sdk_message_send e n p s)) = rooms s
   \<and> roomMembers (snd (sdk_message_send e n p s)) = roomMembers s"
  by (cases p) (auto simp: sdk_message_send_def Let_def split: option.splits)

lemma same_rooms_preserves:
  assumes "rooms s' = rooms s \<and> roomMembers s' = roomMembers s"
    and "roomsWf s" and "capacityOk s"
  shows "roomsWf s' \<and> capacityOk s'"
  using assms by (simp add: roomsWf_def capacityOk_def membersOf_def)

lemma handle_preserves:
  assumes "roomsWf s" and "capacityOk s" and "integralReq r"
  shows "roomsWf (handle r s) \<and> capacityOk (handle r s)"
proof (cases r)
  case (ListRooms e p)
  with assms show ?thesis by simp
next
  case (CreateUser e n p)
  with same_rooms_preserves [OF user_create_rooms assms(1,2)] show ?thesis by simp
next
  case (CreateRoom e n p)
  with create_preserves [OF assms(1,2)] assms(3) show ?thesis by simp
next
  case (JoinRoom e p)
  with join_preserves [OF assms(1,2)] show ?thesis by simp
next
  case (SendMessage e n p)
  with same_rooms_preserves [OF message_send_rooms assms(1,2)] show ?thesis by simp
qed

lemma seedRooms_ok: "roomsWf (seedRooms e) \<and> capacityOk (seedRooms e)"
  by (simp add: seedRooms_def roomsWf_def capacityOk_def membersOf_def isInt_def Let_def
      fcard_fempty)

lemma run_preserves:
  "roomsWf s \<Longrightarrow> capacityOk s \<Longrightarrow> list_all integralReq reqs
     \<Longrightarrow> roomsWf (run reqs s) \<and> capacityOk (run reqs s)"
proof (induction reqs arbitrary: s)
  case Nil
  then show ?case by (simp add: run_def)
next
  case (Cons r reqs)
  from Cons.prems have "roomsWf (handle r s) \<and> capacityOk (handle r s)"
    using handle_preserves [of s r] by simp
  with Cons.IH [of "handle r s"] Cons.prems(3) show ?case
    by (simp add: run_def)
qed

lemma capacity_invariant_whole_numbers:
  "list_all integralReq reqs \<Longrightarrow> capacityOk (run reqs (seedRooms e))"
  using run_preserves [of "seedRooms e" reqs] seedRooms_ok [of e] by simp

text \<open>
  Claim C1 says that in every reachable state every room has at most \<open>maxUsers\<close>
  members. The handler clamps the requested capacity to \<open>[2, 10]\<close> but keeps a fraction:
  after three users are created, Ann creates a room asking for 2.5 users and Bob joins,
  the invariant still holds; then Cy's join is accepted, because \<open>2 >= 2.5\<close> is false,
  and the room has 3 members against a capacity of 2.5.
\<close>

theorem C1_capacity_exceeded:
  "capacityOk halfRoom
   \<and> map_option room_maxUsers (map_of (rooms halfRoom) ''room_r'') = Some (5 / 2)
   \<and> membersOf halfRoom ''room_r'' = {|''u_a'', ''u_b''|}
   \<and> \<not> is_err (fst (sdk_room_join demoEnv (Some (joinReq ''u_c'' ''room_r'')) halfRoom))
   \<and> membersOf (snd (sdk_room_join demoEnv (Some (joinReq ''u_c'' ''room_r'')) halfRoom)) ''room_r''
       = {|''u_a'', ''u_b'', ''u_c''|}
   \<and> fcard (membersOf (snd (sdk_room_join demoEnv (Some (joinReq ''u_c'' ''room_r'')) halfRoom))
        ''room_r'') = 3
   \<and> \<not> capacityOk (snd (sdk_room_join demoEnv (Some (joinReq ''u_c'' ''room_r'')) halfRoom))
   \<and> halfRoom = run [CreateUser demoEnv ''a'' (Some (newUser ''Ann'' ''2000-01-01'')),
                      CreateUser demoEnv ''b'' (Some (newUser ''Bob'' ''2000-01-01'')),
                      CreateUser demoEnv ''c'' (Some (newUser ''Cy'' ''2000-01-01'')),
                      CreateRoom demoEnv ''r'' (Some (newRoom ''u_a'' ''Test Room'' (Some (5 / 2)))),
                      JoinRoom demoEnv (Some (joinReq ''u_b'' ''room_r''))]
                  (seedRooms demoEnv)"
  by code_simp

end
